theory Spec2Isabelle
  imports Complex_Main
begin

section \<open>MuToXGuard: the text-to-verdict pipeline of app_simple.py\<close>

text \<open>
  The program is a Streamlit script. Its logic is three functions (\<open>load_model\<close>,
  \<open>detect_language\<close>, \<open>analyze_text\<close>) and the top-level script that calls them.
  The libraries it calls (joblib, scikit-learn, langdetect) are not part of the
  repository: a loaded artifact is a value whose methods are parameters, and every
  call that can raise in Python returns a sum, \<open>Inl\<close> the exception.

  A floating-point number is NaN, an infinity or the real number it denotes, and a
  NumPy scalar has its type beside its value, since a comparison with a Python
  literal is evaluated in that type. Arithmetic on floats is not modelled.
\<close>

subsection \<open>Exceptions\<close>

text \<open>
  \<open>Exception\<close> stands for every exception derived from Python's \<open>Exception\<close>;
  \<open>BaseException\<close> for the others (KeyboardInterrupt, SystemExit), which
  \<open>except Exception\<close> does not catch and a bare \<open>except:\<close> does.
\<close>

datatype exn = Exception string | BaseException string

text \<open>Indexing \<open>xs[i]\<close> with a literal, non-negative index: IndexError out of range.\<close>

definition getitem :: "'a list \<Rightarrow> nat \<Rightarrow> exn + 'a" where
  "getitem xs i = (if i < length xs then Inr (xs ! i) else Inl (Exception ''IndexError''))"

subsection \<open>Floating-point numbers\<close>

text \<open>
  What a Python float or a NumPy floating scalar holds: NaN, an infinity, or a finite
  number, which is the real it denotes. \<open>fgt x c\<close> and \<open>fle x c\<close> are \<open>x > c\<close> and
  \<open>x <= c\<close> for a finite number \<open>c\<close>; every comparison with NaN is false. The
  program only uses \<open>>\<close>; \<open>fle\<close> is there to state properties.
\<close>

datatype fval = NaN | NegInf | Fin real | PosInf

fun fgt :: "fval \<Rightarrow> real \<Rightarrow> bool" where
  "fgt NaN c = False"
| "fgt NegInf c = False"
| "fgt (Fin x) c = (c < x)"
| "fgt PosInf c = True"


text \<open>
  A probability that scikit-learn returns is a NumPy scalar of type float64 or
  float32. \<open>prob > 0.8\<close> is evaluated by NumPy in the type of the scalar: the Python
  literal is converted to that type, so a \<open>Float32\<close> scalar is compared with the
  float32 nearest to the literal. (This is the rule of NumPy 2. Under the older rule
  a float32 scalar is converted to float64 for the comparison instead; such a scalar
  behaves here as the \<open>Float64\<close> scalar of the same value.)
\<close>

datatype dtype = Float64 | Float32

record npfloat =
  dtype :: dtype
  val :: fval

text \<open>
  The literal \<open>0.8\<close> as a double is \<open>0x1.999999999999ap-1\<close> and as a float32
  \<open>0x1.99999ap-1\<close>; \<open>0.5\<close> is exact in both.
\<close>

definition double_0_8 :: real where
  "double_0_8 = 3602879701896397 / 4503599627370496"

definition single_0_8 :: real where
  "single_0_8 = 13421773 / 16777216"

definition literal_0_8 :: "dtype \<Rightarrow> real" where
  "literal_0_8 d = (case d of Float64 \<Rightarrow> double_0_8 | Float32 \<Rightarrow> single_0_8)"

definition literal_0_5 :: "dtype \<Rightarrow> real" where
  "literal_0_5 d = 1 / 2"

text \<open>\<open>p > literal\<close> for a NumPy scalar \<open>p\<close> and a Python float literal.\<close>

definition np_gt :: "npfloat \<Rightarrow> (dtype \<Rightarrow> real) \<Rightarrow> bool" where
  "np_gt p literal = fgt (val p) (literal (dtype p))"

text \<open>\<open>float(p)\<close>: the same value as a Python float; the conversion is exact.\<close>

definition py_float :: "npfloat \<Rightarrow> fval" where
  "py_float p = val p"

text \<open>The float64 scalar that holds the number \<open>x\<close>.\<close>

definition float64 :: "real \<Rightarrow> npfloat" where
  "float64 x = \<lparr> dtype = Float64, val = Fin x \<rparr>"

subsection \<open>Artifacts\<close>

text \<open>
  What \<open>joblib.load\<close> returns is an object of no checked type; the script only ever
  calls \<open>transform\<close>, \<open>predict_proba\<close> and \<open>predict\<close> on it and reads
  \<open>vocabulary_\<close> (the field \<open>vocabulary\<close>). An object without one of them
  raises there (AttributeError), so each is a field that may be an exception. \<open>'t\<close> is the type of a text, \<open>'x\<close> the
  type of a feature matrix. Class labels are integers, \<open>predict\<close> returns one per
  row, \<open>predict_proba\<close> one row of class probabilities per row.
\<close>

record ('t, 'x) pyobj =
  transform :: "'t list \<Rightarrow> exn + 'x"
  predict_proba :: "'x \<Rightarrow> exn + npfloat list list"
  predict :: "'x \<Rightarrow> exn + int list"
  vocabulary :: "exn + (string \<times> nat) list"

subsection \<open>The scorer\<close>

datatype severity = HIGH | MEDIUM | LOW

record verdict =
  is_toxic :: bool
  confidence :: fval
  severity :: severity

text \<open>
  \<open>analyze_text(text, model, vectorizer)\<close>: the statements in source order, the
  first exception ending the call. \<open>bool(pred)\<close> of an integer label is
  \<open>pred \<noteq> 0\<close>. The comparisons are on the scalar \<open>prob\<close>, in its own type; the
  confidence is \<open>float(prob)\<close>.
\<close>

definition analyze_text ::
  "'t \<Rightarrow> ('t, 'x) pyobj \<Rightarrow> ('t, 'x) pyobj \<Rightarrow> exn + verdict" where
  "analyze_text text model vectorizer =
     (case transform vectorizer [text] of
        Inl e \<Rightarrow> Inl e
      | Inr X \<Rightarrow>
     (case predict_proba model X of
        Inl e \<Rightarrow> Inl e
      | Inr P \<Rightarrow>
     (case getitem P 0 of
        Inl e \<Rightarrow> Inl e
      | Inr row \<Rightarrow>
     (case getitem row 1 of
        Inl e \<Rightarrow> Inl e
      | Inr prob \<Rightarrow>
     (case predict model X of
        Inl e \<Rightarrow> Inl e
      | Inr L \<Rightarrow>
     (case getitem L 0 of
        Inl e \<Rightarrow> Inl e
      | Inr pred \<Rightarrow>
          Inr \<lparr> is_toxic = (pred \<noteq> 0),
                confidence = py_float prob,
                severity = (if np_gt prob literal_0_8 then HIGH
                            else if np_gt prob literal_0_5 then MEDIUM else LOW) \<rparr>))))))"

subsection \<open>The language detector\<close>

text \<open>
  \<open>detect_langs\<close> of langdetect returns a list of candidates, each with a language
  code and a probability, or raises. The codes it can return are ASCII, and
  \<open>str_upper\<close> is \<open>str.upper\<close> on ASCII: the letters a to z are mapped to A to Z,
  every other character is kept.
\<close>

record language =
  lang :: string
  prob :: real

definition chr_upper :: "char \<Rightarrow> char" where
  "chr_upper c =
     (case map_of (zip ''abcdefghijklmnopqrstuvwxyz'' ''ABCDEFGHIJKLMNOPQRSTUVWXYZ'') c of
        Some u \<Rightarrow> u
      | None \<Rightarrow> c)"

definition str_upper :: "string \<Rightarrow> string" where
  "str_upper s = map chr_upper s"

text \<open>
  The body of the \<open>try\<close> block: it raises, or returns a value from inside the block
  (\<open>Some\<close>), or falls through to the end of the block (\<open>None\<close>).
\<close>

definition detect_language_try ::
  "('t \<Rightarrow> exn + language list) \<Rightarrow> 't \<Rightarrow> exn + string option" where
  "detect_language_try detect_langs text =
     (case detect_langs text of
        Inl e \<Rightarrow> Inl e
      | Inr langs \<Rightarrow>
          (if langs \<noteq> [] then
             (case getitem langs 0 of
                Inl e \<Rightarrow> Inl e
              | Inr l \<Rightarrow> Inr (Some (str_upper (lang l))))
           else Inr None))"

text \<open>
  \<open>detect_language(text)\<close>: the bare \<open>except: pass\<close> catches every exception of the
  block, and the statement after the \<open>try\<close> returns the sentinel.
\<close>

definition detect_language :: "('t \<Rightarrow> exn + language list) \<Rightarrow> 't \<Rightarrow> exn + string" where
  "detect_language detect_langs text =
     (case detect_language_try detect_langs text of
        Inr (Some code) \<Rightarrow> Inr code
      | Inr None \<Rightarrow> Inr ''UNKNOWN''
      | Inl e \<Rightarrow> Inr ''UNKNOWN'')"

subsection \<open>The loader\<close>

text \<open>
  \<open>BASE_DIR / 'models' / 'classical' / name\<close>, as the string handed to
  \<open>joblib.load\<close>.
\<close>

definition model_path :: "string \<Rightarrow> string" where
  "model_path base = base @ ''/models/classical/logreg_toxic_only.joblib''"

definition vectorizer_path :: "string \<Rightarrow> string" where
  "vectorizer_path base = base @ ''/models/classical/tfidf_vectorizer.joblib''"

text \<open>
  \<open>load_model()\<close>: the two loads in source order. The handler
  \<open>except Exception as e: ...; raise\<close> only writes diagnostics and raises the
  exception again, and an exception it does not catch propagates as well, so in both
  cases the call ends with the exception. The diagnostic writes to the page are left
  out.
\<close>

definition load_model ::
  "(string \<Rightarrow> exn + ('t, 'x) pyobj) \<Rightarrow> string \<Rightarrow> exn + (('t, 'x) pyobj \<times> ('t, 'x) pyobj)" where
  "load_model joblib_load base =
     (case joblib_load (model_path base) of
        Inl e \<Rightarrow> Inl e
      | Inr model \<Rightarrow>
          (case joblib_load (vectorizer_path base) of
             Inl e \<Rightarrow> Inl e
           | Inr vectorizer \<Rightarrow> Inr (model, vectorizer)))"

text \<open>
  \<open>@st.cache_resource\<close>: the first call that returns stores its result for the
  life of the process, later calls return the stored pair without running the body;
  a call that raises stores nothing.
\<close>

definition load_model_cached ::
  "(string \<Rightarrow> exn + ('t, 'x) pyobj) \<Rightarrow> string \<Rightarrow> (('t, 'x) pyobj \<times> ('t, 'x) pyobj) option \<Rightarrow>
   (exn + (('t, 'x) pyobj \<times> ('t, 'x) pyobj)) \<times> (('t, 'x) pyobj \<times> ('t, 'x) pyobj) option" where
  "load_model_cached joblib_load base cache =
     (case cache of
        Some pair \<Rightarrow> (Inr pair, Some pair)
      | None \<Rightarrow>
          (case load_model joblib_load base of
             Inl e \<Rightarrow> (Inl e, None)
           | Inr pair \<Rightarrow> (Inr pair, Some pair)))"

subsection \<open>Strings\<close>

text \<open>
  A text of the page is a list of characters, each one code point below 256. On
  these, \<open>isspace\<close> is the whitespace of \<open>str.strip()\<close> and \<open>str.split()\<close> (tab to
  carriage return, the separators 28 to 31, space, 133 and 160) and \<open>isupper\<close> is
  \<open>str.isupper()\<close> of one character (A to Z and the capital letters 192 to 222
  except the multiplication sign 215).
\<close>

definition isspace :: "char \<Rightarrow> bool" where
  "isspace c =
     (let n = (of_char c :: nat)
      in (9 \<le> n \<and> n \<le> 13) \<or> (28 \<le> n \<and> n \<le> 32) \<or> n = 133 \<or> n = 160)"

definition isupper :: "char \<Rightarrow> bool" where
  "isupper c =
     (let n = (of_char c :: nat)
      in (65 \<le> n \<and> n \<le> 90) \<or> (192 \<le> n \<and> n \<le> 214) \<or> (216 \<le> n \<and> n \<le> 222))"

text \<open>\<open>s.strip()\<close>: leading and trailing whitespace removed.\<close>

definition str_strip :: "string \<Rightarrow> string" where
  "str_strip s = rev (dropWhile isspace (rev (dropWhile isspace s)))"

text \<open>
  \<open>s.split()\<close>: one scan from the left; \<open>cur\<close> is the token being read. Whitespace
  ends the token if there is one, and is skipped otherwise.
\<close>

fun split_scan :: "string \<Rightarrow> string \<Rightarrow> string list" where
  "split_scan cur [] = (if cur = [] then [] else [cur])"
| "split_scan cur (c # cs) =
     (if isspace c then (if cur = [] then split_scan [] cs else cur # split_scan [] cs)
      else split_scan (cur @ [c]) cs)"

definition str_split :: "string \<Rightarrow> string list" where
  "str_split s = split_scan [] s"

text \<open>
  \<open>re.search\<close> with a pattern that is one character class \<open>[...]\<close> of literal
  characters: the first character of the text that is in the class, if any. In
  \<open>[!?@#$%^&*]\<close> every character is literal (\<open>^\<close> is not the first one).
\<close>

definition re_search_class :: "string \<Rightarrow> string \<Rightarrow> char option" where
  "re_search_class cls s = find (\<lambda>c. c \<in> set cls) s"

subsection \<open>The page\<close>

text \<open>
  One run of the script. What survives a run is the \<open>cache_resource\<close> entry of
  \<open>load_model\<close> and \<open>st.session_state.example\<close>; what a run reads is the widgets'
  values. The run is recorded as the list of its events, in program order: the calls
  of \<open>detect_language\<close> and \<open>analyze_text\<close>, and the elements written to the page
  that depend on data. Static markup (title, style sheet, sidebar text, footer, the
  explanation expander) is left out, and writing an element does not fail.
\<close>

record inputs =
  example1_btn :: bool
  example2_btn :: bool
  example3_btn :: bool
  text_input :: string
  analyze_btn :: bool
  clear_btn :: bool

record 'x session =
  cached :: "((string, 'x) pyobj \<times> (string, 'x) pyobj) option"
  example :: "string option"

record 'x env =
  BASE_DIR :: string
  joblib_load :: "string \<Rightarrow> exn + (string, 'x) pyobj"
  detect_langs :: "string \<Rightarrow> exn + language list"

datatype box = Toxic_box severity | Warning_box severity | Safe_box

datatype event =
    Call_detect_language string
  | Call_analyze_text string
  | St_success
  | St_error exn
  | St_warning
  | Model_info nat
  | Result_box box
  | Metric_language string
  | Metric_score fval
  | Metric_severity severity
  | St_progress fval
  | Stat_words nat
  | Stat_chars nat
  | Stat_caps bool
  | Stat_special bool

text \<open>
  How a run ends: at the end of the script, by \<open>st.stop()\<close>, by \<open>st.rerun()\<close>, or
  with an exception nobody caught.
\<close>

datatype outcome = Completed | Stopped | Rerun | Uncaught exn

text \<open>The main result box (the \<open>if result['is_toxic']\<close> block).\<close>

definition main_result_box :: "verdict \<Rightarrow> box" where
  "main_result_box result =
     (if is_toxic result then
        (if severity result = HIGH then Toxic_box (severity result)
         else Warning_box (severity result))
      else Safe_box)"

text \<open>The four text statistics.\<close>

definition text_statistics :: "string \<Rightarrow> event list" where
  "text_statistics text =
     (let words = str_split text;
          chars = length text;
          has_caps = list_ex isupper text;
          has_special = (re_search_class ''!?@#$%^&*'' text \<noteq> None)
      in [Stat_words (length words), Stat_chars chars, Stat_caps has_caps,
          Stat_special has_special])"

text \<open>
  What is written once \<open>lang\<close> (here \<open>lng\<close>) and \<open>result\<close> are there. The score
  metric shows \<open>confidence * 100\<close> with one decimal; its event holds the confidence
  that is shown.
\<close>

definition display_results :: "string \<Rightarrow> verdict \<Rightarrow> string \<Rightarrow> event list" where
  "display_results lng result text =
     [Result_box (main_result_box result),
      Metric_language lng,
      Metric_score (confidence result),
      Metric_severity (severity result),
      St_progress (confidence result)] @ text_statistics text"

text \<open>The body of \<open>if analyze_btn and text_input.strip():\<close>.\<close>

definition analysis ::
  "'x env \<Rightarrow> (string, 'x) pyobj \<Rightarrow> (string, 'x) pyobj \<Rightarrow> string \<Rightarrow> event list \<times> outcome" where
  "analysis env model vectorizer text =
     (case detect_language (detect_langs env) text of
        Inl e \<Rightarrow> ([Call_detect_language text], Uncaught e)
      | Inr lng \<Rightarrow>
          (case analyze_text text model vectorizer of
             Inl e \<Rightarrow> ([Call_detect_language text, Call_analyze_text text], Uncaught e)
           | Inr result \<Rightarrow>
               ([Call_detect_language text, Call_analyze_text text]
                  @ display_results lng result text, Completed)))"

text \<open>The three example buttons of the sidebar, in source order.\<close>

definition example_buttons :: "inputs \<Rightarrow> string option \<Rightarrow> string option" where
  "example_buttons inp ex =
     (let ex1 = (if example1_btn inp then Some ''You are awesome! Great work!'' else ex);
          ex2 = (if example2_btn inp
                 then Some (''This is stupid and you'' @ [CHR 0x27] @ ''re an idiot'') else ex1);
          ex3 = (if example3_btn inp then Some ''Bodoh punya orang'' else ex2)
      in ex3)"

text \<open>
  The script from the input area on, with the artifacts loaded: the clear button,
  the guarded analysis, the warning.
\<close>

definition main_block ::
  "'x env \<Rightarrow> (string, 'x) pyobj \<Rightarrow> (string, 'x) pyobj \<Rightarrow> 'x session \<Rightarrow> inputs \<Rightarrow>
   'x session \<times> event list \<times> outcome" where
  "main_block env model vectorizer s inp =
     (if clear_btn inp then (s\<lparr>example := Some []\<rparr>, [], Rerun)
      else if analyze_btn inp \<and> str_strip (text_input inp) \<noteq> [] then
        (case analysis env model vectorizer (text_input inp) of (evs, out) \<Rightarrow> (s, evs, out))
      else if analyze_btn inp then (s, [St_warning], Completed)
      else (s, [], Completed))"

text \<open>
  The whole script: load (an \<open>Exception\<close> is caught, reported and the run stopped;
  anything else is not caught), the sidebar (\<open>len(vectorizer.vocabulary_)\<close> and the
  example buttons), then the main block.
\<close>

definition script :: "'x env \<Rightarrow> 'x session \<Rightarrow> inputs \<Rightarrow> 'x session \<times> event list \<times> outcome" where
  "script env s inp =
     (case load_model_cached (joblib_load env) (BASE_DIR env) (cached s) of
        (Inl (Exception msg), c) \<Rightarrow> (s\<lparr>cached := c\<rparr>, [St_error (Exception msg)], Stopped)
      | (Inl (BaseException msg), c) \<Rightarrow> (s\<lparr>cached := c\<rparr>, [], Uncaught (BaseException msg))
      | (Inr (model, vectorizer), c) \<Rightarrow>
          (case vocabulary vectorizer of
             Inl e \<Rightarrow> (s\<lparr>cached := c\<rparr>, [St_success], Uncaught e)
           | Inr voc \<Rightarrow>
               (case main_block env model vectorizer
                       (s\<lparr>cached := c, example := example_buttons inp (example s)\<rparr>) inp of
                  (s', evs, out) \<Rightarrow> (s', [St_success, Model_info (length voc)] @ evs, out))))"

subsection \<open>Whitespace-separated tokens\<close>

text \<open>
  The number of whitespace-separated tokens of a text, stated without a scan: the
  number of places where a token starts, that is, of characters that are not
  whitespace and come first or after whitespace. (A space is put in front of the text
  so that the first character has a predecessor.)
\<close>

definition token_count :: "string \<Rightarrow> nat" where
  "token_count s =
     length (filter (\<lambda>(p, c). isspace p \<and> \<not> isspace c) (zip (CHR '' '' # s) s))"

text \<open>The events of a run that show the language guess.\<close>

fun shows_language :: "event \<Rightarrow> bool" where
  "shows_language (Metric_language _) = True"
| "shows_language _ = False"

text \<open>A run with the language guess taken off the page.\<close>

definition hide_language ::
  "'x session \<times> event list \<times> outcome \<Rightarrow> 'x session \<times> event list \<times> outcome" where
  "hide_language run =
     (case run of (s, evs, out) \<Rightarrow> (s, filter (\<lambda>ev. \<not> shows_language ev) evs, out))"

subsection \<open>Fixtures\<close>

text \<open>
  Concrete artifacts for evaluating the definitions: a vectorizer whose feature
  matrix is the list of texts itself, and a classifier that answers every row with
  the float64 probabilities \<open>[1 - p, p]\<close> and the label \<open>l\<close>.
\<close>

definition stub_vectorizer :: "(string, string list) pyobj" where
  "stub_vectorizer =
     \<lparr> transform = (\<lambda>ts. Inr ts),
       predict_proba = (\<lambda>_. Inl (Exception ''AttributeError'')),
       predict = (\<lambda>_. Inl (Exception ''AttributeError'')),
       vocabulary = Inr [(''bodoh'', 0), (''idiot'', 1), (''stupid'', 2)] \<rparr>"

definition stub_model :: "real \<Rightarrow> int \<Rightarrow> (string, string list) pyobj" where
  "stub_model p l =
     \<lparr> transform = (\<lambda>_. Inl (Exception ''AttributeError'')),
       predict_proba = (\<lambda>X. Inr (map (\<lambda>_. [float64 (1 - p), float64 p]) X)),
       predict = (\<lambda>X. Inr (map (\<lambda>_. l) X)),
       vocabulary = Inl (Exception ''AttributeError'') \<rparr>"


text \<open>
  A detector that finds no features in an empty or digit-only text, as langdetect
  does, and otherwise answers with two candidates, the most probable first.
\<close>

definition stub_detect_langs :: "string \<Rightarrow> exn + language list" where
  "stub_detect_langs t =
     (if list_all (\<lambda>c. c \<in> set ''0123456789'') t
      then Inl (Exception ''LangDetectException'')
      else Inr [\<lparr> lang = ''ms'', prob = 0.7 \<rparr>, \<lparr> lang = ''en'', prob = 0.3 \<rparr>])"

text \<open>
  Artifacts that fail on chosen inputs: a vectorizer that rejects one text, and a
  classifier whose \<open>predict_proba\<close> rejects one feature matrix and whose \<open>predict\<close>
  rejects another.
\<close>

definition brittle_vectorizer :: "string \<Rightarrow> (string, string list) pyobj" where
  "brittle_vectorizer bad =
     \<lparr> transform = (\<lambda>ts. if ts = [bad] then Inl (Exception ''ValueError'') else Inr ts),
       predict_proba = (\<lambda>_. Inl (Exception ''AttributeError'')),
       predict = (\<lambda>_. Inl (Exception ''AttributeError'')),
       vocabulary = Inr [(''bodoh'', 0)] \<rparr>"

definition brittle_model :: "string \<Rightarrow> string \<Rightarrow> (string, string list) pyobj" where
  "brittle_model bad1 bad2 =
     \<lparr> transform = (\<lambda>_. Inl (Exception ''AttributeError'')),
       predict_proba =
         (\<lambda>X. if X = [bad1] then Inl (Exception ''ValueError'')
              else Inr (map (\<lambda>_. [float64 0.3, float64 0.7]) X)),
       predict =
         (\<lambda>X. if X = [bad2] then Inl (Exception ''TypeError'') else Inr (map (\<lambda>_. 1) X)),
       vocabulary = Inl (Exception ''AttributeError'') \<rparr>"

text \<open>
  A directory that holds the classifier file only, and one that holds both files.
\<close>

definition stub_env_no_vectorizer :: "string list env" where
  "stub_env_no_vectorizer =
     \<lparr> BASE_DIR = ''/app'',
       joblib_load =
         (\<lambda>path. if path = ''/app/models/classical/logreg_toxic_only.joblib''
                  then Inr (stub_model 0.9 1)
                  else Inl (Exception ''FileNotFoundError'')),
       detect_langs = stub_detect_langs \<rparr>"

definition stub_env :: "string list env" where
  "stub_env =
     \<lparr> BASE_DIR = ''/app'',
       joblib_load =
         (\<lambda>path. if path = ''/app/models/classical/logreg_toxic_only.joblib''
                  then Inr (stub_model 0.9 0)
                  else if path = ''/app/models/classical/tfidf_vectorizer.joblib''
                  then Inr stub_vectorizer
                  else Inl (Exception ''FileNotFoundError'')),
       detect_langs = stub_detect_langs \<rparr>"

definition stub_inputs :: "string \<Rightarrow> inputs" where
  "stub_inputs text =
     \<lparr> example1_btn = False, example2_btn = False, example3_btn = False,
       text_input = text, analyze_btn = True, clear_btn = False \<rparr>"

definition fresh_session :: "string list session" where
  "fresh_session = \<lparr> cached = None, example = None \<rparr>"

definition loaded_session :: "string list session" where
  "loaded_session = \<lparr> cached = Some (stub_model 0.9 0, stub_vectorizer), example = None \<rparr>"

definition brittle_session :: "string list session" where
  "brittle_session =
     \<lparr> cached = Some (brittle_model ''spam'' ''eggs'', brittle_vectorizer ''ham''),
       example = None \<rparr>"

section \<open>Properties\<close>

subsection \<open>Strings\<close>

lemma str_strip_Nil_iff: "str_strip s = [] \<longleftrightarrow> (\<forall>c\<in>set s. isspace c)"
proof
  assume a: "str_strip s = []"
  have "dropWhile isspace s = []"
  proof (rule ccontr)
    assume ne: "dropWhile isspace s \<noteq> []"
    then have "\<not> isspace (hd (dropWhile isspace s))" by (rule hd_dropWhile)
    moreover have "hd (dropWhile isspace s) \<in> set (dropWhile isspace s)"
      using ne by simp
    moreover have "\<forall>x\<in>set (dropWhile isspace s). isspace x"
      using a by (simp add: str_strip_def dropWhile_eq_Nil_conv)
    ultimately show False by blast
  qed
  then show "\<forall>c\<in>set s. isspace c" by (simp add: dropWhile_eq_Nil_conv)
next
  assume "\<forall>c\<in>set s. isspace c"
  then have d: "dropWhile isspace s = []" by (simp add: dropWhile_eq_Nil_conv)
  show "str_strip s = []" unfolding str_strip_def d by simp
qed

lemma split_scan_length:
  "(isspace x \<longleftrightarrow> cur = []) \<Longrightarrow>
   length (split_scan cur s) =
     (if cur = [] then 0 else 1)
       + length (filter (\<lambda>(p, c). isspace p \<and> \<not> isspace c) (zip (x # s) s))"
proof (induction s arbitrary: cur x)
  case Nil
  then show ?case by simp
next
  case (Cons c cs)
  show ?case
  proof (cases "isspace c")
    case True
    have "length (split_scan [] cs) =
            0 + length (filter (\<lambda>(p, c). isspace p \<and> \<not> isspace c) (zip (c # cs) cs))"
      using Cons.IH [of c "[]"] True by simp
    then show ?thesis using True Cons.prems by simp
  next
    case False
    have "length (split_scan (cur @ [c]) cs) =
            1 + length (filter (\<lambda>(p, c). isspace p \<and> \<not> isspace c) (zip (c # cs) cs))"
      using Cons.IH [of c "cur @ [c]"] False by simp
    then show ?thesis using False Cons.prems by auto
  qed
qed

lemma str_split_length: "length (str_split s) = token_count s"
  using split_scan_length [of "CHR '' ''" "[]" s]
  by (simp add: str_split_def token_count_def isspace_def)

lemma split_scan_concat:
  "concat (split_scan cur s) = cur @ filter (\<lambda>c. \<not> isspace c) s"
  by (induction s arbitrary: cur) auto

lemma split_scan_tokens:
  "\<forall>c\<in>set cur. \<not> isspace c \<Longrightarrow> w \<in> set (split_scan cur s) \<Longrightarrow>
   w \<noteq> [] \<and> (\<forall>c\<in>set w. \<not> isspace c)"
proof (induction s arbitrary: cur)
  case Nil
  then show ?case by (auto split: if_splits)
next
  case (Cons c cs)
  show ?case
  proof (cases "isspace c")
    case True
    then have "w = cur \<and> cur \<noteq> [] \<or> w \<in> set (split_scan [] cs)"
      using Cons.prems(2) by (auto split: if_splits)
    then show ?thesis
    proof
      assume "w = cur \<and> cur \<noteq> []"
      then show ?thesis using Cons.prems(1) by simp
    next
      assume "w \<in> set (split_scan [] cs)"
      then show ?thesis using Cons.IH [of "[]"] by simp
    qed
  next
    case False
    then have "w \<in> set (split_scan (cur @ [c]) cs)" using Cons.prems(2) by simp
    moreover have "\<forall>d\<in>set (cur @ [c]). \<not> isspace d" using False Cons.prems(1) by simp
    ultimately show ?thesis using Cons.IH [of "cur @ [c]"] by blast
  qed
qed

subsection \<open>The language detector\<close>

lemma detect_language_eq:
  "detect_language dl text =
     Inr (case dl text of Inr (l # ls) \<Rightarrow> str_upper (lang l) | _ \<Rightarrow> ''UNKNOWN'')"
  by (simp add: detect_language_def detect_language_try_def getitem_def
           split: sum.splits list.splits)

subsection \<open>Runs of the script\<close>

lemma session_cached_same:
  "cached s = c \<Longrightarrow> s\<lparr>cached := c, example := e\<rparr> = s\<lparr>example := e\<rparr>"
  by (cases s) simp

lemma script_cached:
  assumes "cached s = Some (m, v)" "vocabulary v = Inr voc"
  shows "script env s inp =
     (case main_block env m v (s\<lparr>example := example_buttons inp (example s)\<rparr>) inp of
        (s', evs, out) \<Rightarrow> (s', [St_success, Model_info (length voc)] @ evs, out))"
  using assms by (simp add: script_def load_model_cached_def session_cached_same)

lemma script_load_fails:
  assumes "cached s = None" "load_model (joblib_load env) (BASE_DIR env) = Inl e"
  shows "script env s inp =
     (case e of Exception msg \<Rightarrow> (s, [St_error e], Stopped)
              | BaseException msg \<Rightarrow> (s, [], Uncaught e))"
  using assms by (cases e) (simp_all add: script_def load_model_cached_def)

lemma analysis_eq:
  "analysis env m v text =
     (case analyze_text text m v of
        Inl e \<Rightarrow> ([Call_detect_language text, Call_analyze_text text], Uncaught e)
      | Inr r \<Rightarrow>
          ([Call_detect_language text, Call_analyze_text text]
             @ display_results
                 (case detect_langs env text of
                    Inr (l # ls) \<Rightarrow> str_upper (lang l) | _ \<Rightarrow> ''UNKNOWN'') r text,
           Completed))"
  by (simp add: analysis_def detect_language_eq)

subsection \<open>The scorer\<close>


lemma double_less_single_0_8: "double_0_8 < single_0_8"
  by (simp add: double_0_8_def single_0_8_def)

lemma analyze_text_stub:
  "analyze_text t (stub_model p l) stub_vectorizer =
     Inr \<lparr> is_toxic = (l \<noteq> 0), confidence = Fin p,
           severity = (if double_0_8 < p then HIGH else if 1 / 2 < p then MEDIUM else LOW) \<rparr>"
  by (simp add: analyze_text_def stub_model_def stub_vectorizer_def getitem_def float64_def
                np_gt_def py_float_def literal_0_8_def literal_0_5_def)


lemma stub_verdicts:
  "analyze_text t (stub_model 0.9 l) stub_vectorizer =
     Inr \<lparr> is_toxic = (l \<noteq> 0), confidence = Fin 0.9, severity = HIGH \<rparr>"
  "analyze_text t (stub_model 0.7 l) stub_vectorizer =
     Inr \<lparr> is_toxic = (l \<noteq> 0), confidence = Fin 0.7, severity = MEDIUM \<rparr>"
  "analyze_text t (stub_model 0.6 l) stub_vectorizer =
     Inr \<lparr> is_toxic = (l \<noteq> 0), confidence = Fin 0.6, severity = MEDIUM \<rparr>"
  "analyze_text t (stub_model 0.1 l) stub_vectorizer =
     Inr \<lparr> is_toxic = (l \<noteq> 0), confidence = Fin 0.1, severity = LOW \<rparr>"
  by (simp_all add: analyze_text_stub double_0_8_def)


lemma analyze_text_Inr_record:
  assumes "analyze_text t m v = Inr r"
  obtains X P L where
    "transform v [t] = Inr X" "predict_proba m X = Inr P" "predict m X = Inr L"
    "0 < length P" "1 < length (P ! 0)" "0 < length L"
    "r = \<lparr> is_toxic = (L ! 0 \<noteq> 0), confidence = py_float (P ! 0 ! 1),
            severity = (if np_gt (P ! 0 ! 1) literal_0_8 then HIGH
                        else if np_gt (P ! 0 ! 1) literal_0_5 then MEDIUM else LOW) \<rparr>"
proof -
  obtain X where X: "transform v [t] = Inr X"
    using assms by (cases "transform v [t]") (simp_all add: analyze_text_def)
  obtain P where P: "predict_proba m X = Inr P"
    using assms X by (cases "predict_proba m X") (simp_all add: analyze_text_def)
  have lP: "0 < length P"
    using assms X P by (cases "0 < length P") (simp_all add: analyze_text_def getitem_def)
  have lrow: "1 < length (P ! 0)"
    using assms X P lP
    by (cases "1 < length (P ! 0)") (simp_all add: analyze_text_def getitem_def)
  obtain L where L: "predict m X = Inr L"
    using assms X P lP lrow
    by (cases "predict m X") (simp_all add: analyze_text_def getitem_def)
  have lL: "0 < length L"
    using assms X P lP lrow L
    by (cases "0 < length L") (simp_all add: analyze_text_def getitem_def)
  have "analyze_text t m v =
          Inr \<lparr> is_toxic = (L ! 0 \<noteq> 0), confidence = py_float (P ! 0 ! 1),
                severity = (if np_gt (P ! 0 ! 1) literal_0_8 then HIGH
                            else if np_gt (P ! 0 ! 1) literal_0_5 then MEDIUM else LOW) \<rparr>"
    using X P lP lrow L lL by (simp add: analyze_text_def getitem_def)
  with assms
  have r: "r = \<lparr> is_toxic = (L ! 0 \<noteq> 0), confidence = py_float (P ! 0 ! 1),
            severity = (if np_gt (P ! 0 ! 1) literal_0_8 then HIGH
                        else if np_gt (P ! 0 ! 1) literal_0_5 then MEDIUM else LOW) \<rparr>"
    by simp
  from X P L lP lrow lL r show ?thesis by (rule that)
qed

lemma analyze_text_InrD:
  assumes "analyze_text t m v = Inr r"
  obtains X P L where
    "transform v [t] = Inr X" "predict_proba m X = Inr P" "predict m X = Inr L"
    "0 < length P" "1 < length (P ! 0)" "0 < length L"
    "is_toxic r = (L ! 0 \<noteq> 0)" "confidence r = py_float (P ! 0 ! 1)"
proof -
  from assms obtain X P L where
    X: "transform v [t] = Inr X" and P: "predict_proba m X = Inr P"
    and L: "predict m X = Inr L"
    and lP: "0 < length P" and lrow: "1 < length (P ! 0)" and lL: "0 < length L"
    and r: "r = \<lparr> is_toxic = (L ! 0 \<noteq> 0), confidence = py_float (P ! 0 ! 1),
            severity = (if np_gt (P ! 0 ! 1) literal_0_8 then HIGH
                        else if np_gt (P ! 0 ! 1) literal_0_5 then MEDIUM else LOW) \<rparr>"
    by (rule analyze_text_Inr_record)
  have t: "is_toxic r = (L ! 0 \<noteq> 0)" by (subst r) simp
  have c: "confidence r = py_float (P ! 0 ! 1)" by (subst r) simp
  from X P L lP lrow lL t c show ?thesis by (rule that)
qed






text \<open>
  C2. The flag \<open>is_toxic\<close> of every verdict is the truth value of the label that
  \<open>predict\<close> returns for the vectorized text. It is not computed from the
  probability: a classifier with the same \<open>predict\<close> and any \<open>predict_proba\<close>
  gives the same flag. So flag and severity can disagree: there are artifacts with
  \<open>is_toxic\<close> false and severity HIGH or MEDIUM, and with \<open>is_toxic\<close> true and
  severity LOW.
\<close>

theorem is_toxic_is_predicted_label:
  "(\<forall>r. analyze_text t m v = Inr r \<longrightarrow>
        (\<exists>X L. transform v [t] = Inr X \<and> predict m X = Inr L \<and> L \<noteq> []
               \<and> is_toxic r = (L ! 0 \<noteq> 0)))
   \<and> (\<forall>m' r r'. analyze_text t m v = Inr r \<and> analyze_text t m' v = Inr r'
          \<and> predict m' = predict m \<longrightarrow> is_toxic r' = is_toxic r)
   \<and> (\<exists>r. analyze_text ''x'' (stub_model 0.9 0) stub_vectorizer = Inr r
          \<and> \<not> is_toxic r \<and> severity r = HIGH)
   \<and> (\<exists>r. analyze_text ''x'' (stub_model 0.6 0) stub_vectorizer = Inr r
          \<and> \<not> is_toxic r \<and> severity r = MEDIUM)
   \<and> (\<exists>r. analyze_text ''x'' (stub_model 0.1 1) stub_vectorizer = Inr r
          \<and> is_toxic r \<and> severity r = LOW)"
proof (intro conjI allI impI)
  fix r assume "analyze_text t m v = Inr r"
  then obtain X P L where
    "transform v [t] = Inr X" "predict_proba m X = Inr P" "predict m X = Inr L"
    "0 < length P" "1 < length (P ! 0)" "0 < length L"
    "is_toxic r = (L ! 0 \<noteq> 0)" "confidence r = py_float (P ! 0 ! 1)"
    by (rule analyze_text_InrD)
  then show "\<exists>X L. transform v [t] = Inr X \<and> predict m X = Inr L \<and> L \<noteq> []
               \<and> is_toxic r = (L ! 0 \<noteq> 0)"
    by simp
next
  fix m' :: "('a, 'b) pyobj" and r r'
  assume h: "analyze_text t m v = Inr r \<and> analyze_text t m' v = Inr r'
               \<and> predict m' = predict m"
  from h have "analyze_text t m v = Inr r" by simp
  then obtain X P L where 1:
    "transform v [t] = Inr X" "predict_proba m X = Inr P" "predict m X = Inr L"
    "0 < length P" "1 < length (P ! 0)" "0 < length L"
    "is_toxic r = (L ! 0 \<noteq> 0)" "confidence r = py_float (P ! 0 ! 1)"
    by (rule analyze_text_InrD)
  from h have "analyze_text t m' v = Inr r'" by simp
  then obtain X' P' L' where 2:
    "transform v [t] = Inr X'" "predict_proba m' X' = Inr P'" "predict m' X' = Inr L'"
    "0 < length P'" "1 < length (P' ! 0)" "0 < length L'"
    "is_toxic r' = (L' ! 0 \<noteq> 0)" "confidence r' = py_float (P' ! 0 ! 1)"
    by (rule analyze_text_InrD)
  from h have "predict m' = predict m" by simp
  with 1(1,3,7) 2(1,3,7) show "is_toxic r' = is_toxic r" by simp
next
  show "\<exists>r. analyze_text ''x'' (stub_model 0.9 0) stub_vectorizer = Inr r
          \<and> \<not> is_toxic r \<and> severity r = HIGH"
    using stub_verdicts by simp
next
  show "\<exists>r. analyze_text ''x'' (stub_model 0.6 0) stub_vectorizer = Inr r
          \<and> \<not> is_toxic r \<and> severity r = MEDIUM"
    using stub_verdicts by simp
next
  show "\<exists>r. analyze_text ''x'' (stub_model 0.1 1) stub_vectorizer = Inr r
          \<and> is_toxic r \<and> severity r = LOW"
    using stub_verdicts by simp
qed

theorem is_toxic_is_predicted_label_witness:
  "analyze_text ''x'' (stub_model 0.9 0) stub_vectorizer
     = Inr \<lparr> is_toxic = False, confidence = Fin 0.9, severity = HIGH \<rparr>
   \<and> (\<exists>X L. transform stub_vectorizer [''x''] = Inr X
          \<and> predict (stub_model 0.9 0) X = Inr L \<and> L \<noteq> [] \<and> L ! 0 = 0)"
  using is_toxic_is_predicted_label [of "''x''" "stub_model 0.9 0" stub_vectorizer]
  using stub_verdicts by simp

subsection \<open>The language detector, as a whole\<close>

lemma stub_detect:
  "stub_detect_langs [] = Inl (Exception ''LangDetectException'')"
  "stub_detect_langs ''2024'' = Inl (Exception ''LangDetectException'')"
  "stub_detect_langs ''Bodoh punya orang'' =
     Inr [\<lparr> lang = ''ms'', prob = 0.7 \<rparr>, \<lparr> lang = ''en'', prob = 0.3 \<rparr>]"
  by (simp_all add: stub_detect_langs_def)

lemma str_upper_ms: "str_upper ''ms'' = ''MS''"
  by (simp add: str_upper_def chr_upper_def)

text \<open>
  C3. For every text and whatever \<open>detect_langs\<close> does with it, \<open>detect_language\<close>
  returns a string and raises nothing: the upper-cased code of the first candidate if
  there is one, and \<open>UNKNOWN\<close> if the list is empty or \<open>detect_langs\<close> raised. When
  the candidates come ordered by decreasing probability, as langdetect gives them,
  the first candidate is a most probable one.
\<close>

theorem detect_language_never_raises:
  "detect_language dl text =
     Inr (case dl text of Inr (l # ls) \<Rightarrow> str_upper (lang l) | _ \<Rightarrow> ''UNKNOWN'')
   \<and> (\<forall>e. dl text = Inl e \<longrightarrow> detect_language dl text = Inr ''UNKNOWN'')
   \<and> (\<forall>l ls. dl text = Inr (l # ls) \<and> sorted_wrt (\<lambda>a b. prob a \<ge> prob b) (l # ls) \<longrightarrow>
         detect_language dl text = Inr (str_upper (lang l))
         \<and> (\<forall>k\<in>set (l # ls). prob k \<le> prob l))"
proof (intro conjI allI impI)
  show "detect_language dl text =
     Inr (case dl text of Inr (l # ls) \<Rightarrow> str_upper (lang l) | _ \<Rightarrow> ''UNKNOWN'')"
    by (rule detect_language_eq)
next
  fix e assume "dl text = Inl e"
  then show "detect_language dl text = Inr ''UNKNOWN''"
    by (simp add: detect_language_eq)
next
  fix l ls
  assume "dl text = Inr (l # ls) \<and> sorted_wrt (\<lambda>a b. prob a \<ge> prob b) (l # ls)"
  then show "detect_language dl text = Inr (str_upper (lang l))"
    by (simp add: detect_language_eq)
next
  fix l ls
  assume "dl text = Inr (l # ls) \<and> sorted_wrt (\<lambda>a b. prob a \<ge> prob b) (l # ls)"
  then have "\<forall>k\<in>set ls. prob k \<le> prob l" by simp
  then show "\<forall>k\<in>set (l # ls). prob k \<le> prob l" by simp
qed

theorem detect_language_never_raises_witness:
  "detect_language stub_detect_langs [] = Inr ''UNKNOWN''
   \<and> detect_language stub_detect_langs ''2024'' = Inr ''UNKNOWN''
   \<and> detect_language stub_detect_langs ''Bodoh punya orang'' = Inr ''MS''
   \<and> stub_detect_langs ''2024'' = Inl (Exception ''LangDetectException'')
   \<and> stub_detect_langs ''Bodoh punya orang'' =
         Inr [\<lparr> lang = ''ms'', prob = 0.7 \<rparr>, \<lparr> lang = ''en'', prob = 0.3 \<rparr>]
   \<and> sorted_wrt (\<lambda>a b. prob a \<ge> prob b)
         [\<lparr> lang = ''ms'', prob = 0.7 \<rparr>, \<lparr> lang = ''en'', prob = 0.3 \<rparr>]"
proof -
  note a = detect_language_never_raises [of stub_detect_langs "[]", THEN conjunct1]
  have 1: "detect_language stub_detect_langs [] = Inr ''UNKNOWN''"
    unfolding a stub_detect by simp
  have 2: "detect_language stub_detect_langs ''2024'' = Inr ''UNKNOWN''"
    using detect_language_never_raises
            [of stub_detect_langs "''2024''", THEN conjunct2, THEN conjunct1, rule_format,
             OF stub_detect(2)] .
  have s: "sorted_wrt (\<lambda>a b. prob a \<ge> prob b)
             [\<lparr> lang = ''ms'', prob = 0.7 \<rparr>, \<lparr> lang = ''en'', prob = 0.3 \<rparr>]"
    by simp
  have h: "stub_detect_langs ''Bodoh punya orang'' =
             Inr [\<lparr> lang = ''ms'', prob = 0.7 \<rparr>, \<lparr> lang = ''en'', prob = 0.3 \<rparr>]
           \<and> sorted_wrt (\<lambda>a b. prob a \<ge> prob b)
                 [\<lparr> lang = ''ms'', prob = 0.7 \<rparr>, \<lparr> lang = ''en'', prob = 0.3 \<rparr>]"
    using stub_detect(3) s by (rule conjI)
  note d = detect_language_never_raises
             [of stub_detect_langs "''Bodoh punya orang''", THEN conjunct2, THEN conjunct2,
              rule_format, OF h]
  have 3: "detect_language stub_detect_langs ''Bodoh punya orang'' = Inr ''MS''"
    using d by (simp add: str_upper_ms)
  from 1 2 3 stub_detect(2) h show ?thesis by simp
qed

subsection \<open>The confidence\<close>

lemma stub_model_proba:
  "predict_proba (stub_model p l) X = Inr P \<Longrightarrow> row \<in> set P \<Longrightarrow> q \<in> set row \<Longrightarrow>
   val q = Fin (1 - p) \<or> val q = Fin p"
  by (auto simp: stub_model_def float64_def)

text \<open>
  C7. The confidence of a verdict is the entry \<open>[0][1]\<close> of what \<open>predict_proba\<close>
  returned for the vectorized text, unchanged. So for a classifier whose
  \<open>predict_proba\<close> returns probabilities (numbers between 0 and 1, the contract of
  the library), the confidence of every verdict is a number between 0 and 1.
\<close>

theorem confidence_in_unit_interval:
  assumes "analyze_text t m v = Inr r"
    and "\<forall>X P. predict_proba m X = Inr P \<longrightarrow>
           (\<forall>row\<in>set P. \<forall>p\<in>set row. \<exists>x. val p = Fin x \<and> 0 \<le> x \<and> x \<le> 1)"
  shows "(\<exists>x. confidence r = Fin x \<and> 0 \<le> x \<and> x \<le> 1)
       \<and> (\<exists>X P. transform v [t] = Inr X \<and> predict_proba m X = Inr P
              \<and> 0 < length P \<and> 1 < length (P ! 0) \<and> confidence r = py_float (P ! 0 ! 1))"
proof -
  from assms(1) obtain X P L where
    X: "transform v [t] = Inr X" and P: "predict_proba m X = Inr P"
    and L: "predict m X = Inr L"
    and lP: "0 < length P" and lrow: "1 < length (P ! 0)" and lL: "0 < length L"
    and tox: "is_toxic r = (L ! 0 \<noteq> 0)" and c: "confidence r = py_float (P ! 0 ! 1)"
    by (rule analyze_text_InrD)
  have "P ! 0 \<in> set P" using lP by simp
  moreover have "P ! 0 ! 1 \<in> set (P ! 0)" using lrow by simp
  ultimately have "\<exists>x. val (P ! 0 ! 1) = Fin x \<and> 0 \<le> x \<and> x \<le> 1"
    using assms(2) P by blast
  then have "\<exists>x. confidence r = Fin x \<and> 0 \<le> x \<and> x \<le> 1"
    using c by (simp add: py_float_def)
  moreover have "\<exists>X P. transform v [t] = Inr X \<and> predict_proba m X = Inr P
              \<and> 0 < length P \<and> 1 < length (P ! 0) \<and> confidence r = py_float (P ! 0 ! 1)"
    using X P lP lrow c by blast
  ultimately show ?thesis by simp
qed

theorem confidence_in_unit_interval_witness:
  "\<exists>r. analyze_text ''Bodoh punya orang'' (stub_model 0.7 1) stub_vectorizer = Inr r
       \<and> confidence r = Fin 0.7 \<and> (\<exists>x. confidence r = Fin x \<and> 0 \<le> x \<and> x \<le> 1)"
proof -
  have h: "\<forall>X P. predict_proba (stub_model 0.7 1) X = Inr P \<longrightarrow>
             (\<forall>row\<in>set P. \<forall>p\<in>set row. \<exists>x. val p = Fin x \<and> 0 \<le> x \<and> x \<le> 1)"
  proof (intro allI impI ballI)
    fix X P row p
    assume "predict_proba (stub_model 0.7 1) X = Inr P" "row \<in> set P" "p \<in> set row"
    then have "val p = Fin (1 - 0.7) \<or> val p = Fin 0.7" by (rule stub_model_proba)
    then show "\<exists>x. val p = Fin x \<and> 0 \<le> x \<and> x \<le> 1" by auto
  qed
  have a: "analyze_text ''Bodoh punya orang'' (stub_model 0.7 1) stub_vectorizer =
             Inr \<lparr> is_toxic = True, confidence = Fin 0.7, severity = MEDIUM \<rparr>"
    using stub_verdicts by simp
  from confidence_in_unit_interval [OF a h] a show ?thesis by simp
qed

subsection \<open>Text statistics\<close>

lemma re_search_class_iff: "re_search_class cls s \<noteq> None \<longleftrightarrow> (\<exists>c\<in>set s. c \<in> set cls)"
  by (auto simp: re_search_class_def find_None_iff)

lemma str_split_concat: "concat (str_split s) = filter (\<lambda>c. \<not> isspace c) s"
  by (simp add: str_split_def split_scan_concat)

lemma str_split_tokens:
  "w \<in> set (str_split s) \<Longrightarrow> w \<noteq> [] \<and> (\<forall>c\<in>set w. \<not> isspace c)"
  using split_scan_tokens [of "[]" w s] by (simp add: str_split_def)

lemma text_statistics_hello:
  "text_statistics ''Hello World!'' =
     [Stat_words 2, Stat_chars 12, Stat_caps True, Stat_special True]"
  by (simp add: text_statistics_def str_split_def isspace_def isupper_def re_search_class_def)

text \<open>
  C8. The four statistics of a text are: the number of its whitespace-separated
  tokens (the tokens are non-empty, free of whitespace, and together they are the
  text without its whitespace; there are as many as places where a token starts),
  its length, whether some character is upper case, and whether some character is
  one of \<open>!?@#$%^&*\<close>. For \<open>Hello World!\<close> they are 2, 12, true and true.
\<close>

theorem text_statistics_spec:
  "text_statistics text =
     [Stat_words (length (str_split text)), Stat_chars (length text),
      Stat_caps (\<exists>c\<in>set text. isupper c),
      Stat_special (\<exists>c\<in>set text. c \<in> {CHR ''!'', CHR ''?'', CHR ''@'', CHR ''#'', CHR ''$'',
                                          CHR ''%'', CHR ''^'', CHR ''&'', CHR ''*''})]
   \<and> length (str_split text) = token_count text
   \<and> concat (str_split text) = filter (\<lambda>c. \<not> isspace c) text
   \<and> (\<forall>w\<in>set (str_split text). w \<noteq> [] \<and> (\<forall>c\<in>set w. \<not> isspace c))
   \<and> text_statistics ''Hello World!'' =
       [Stat_words 2, Stat_chars 12, Stat_caps True, Stat_special True]"
proof (intro conjI)
  have sp: "(re_search_class ''!?@#$%^&*'' text \<noteq> None) =
      (\<exists>c\<in>set text. c \<in> {CHR ''!'', CHR ''?'', CHR ''@'', CHR ''#'', CHR ''$'',
                             CHR ''%'', CHR ''^'', CHR ''&'', CHR ''*''})"
    unfolding re_search_class_iff by simp
  show "text_statistics text =
     [Stat_words (length (str_split text)), Stat_chars (length text),
      Stat_caps (\<exists>c\<in>set text. isupper c),
      Stat_special (\<exists>c\<in>set text. c \<in> {CHR ''!'', CHR ''?'', CHR ''@'', CHR ''#'', CHR ''$'',
                                          CHR ''%'', CHR ''^'', CHR ''&'', CHR ''*''})]"
    unfolding text_statistics_def Let_def sp by (simp add: list_ex_iff)
next
  show "length (str_split text) = token_count text" by (rule str_split_length)
next
  show "concat (str_split text) = filter (\<lambda>c. \<not> isspace c) text" by (rule str_split_concat)
next
  show "\<forall>w\<in>set (str_split text). w \<noteq> [] \<and> (\<forall>c\<in>set w. \<not> isspace c)"
  proof
    fix w assume "w \<in> set (str_split text)"
    then show "w \<noteq> [] \<and> (\<forall>c\<in>set w. \<not> isspace c)" by (rule str_split_tokens)
  qed
next
  show "text_statistics ''Hello World!'' =
       [Stat_words 2, Stat_chars 12, Stat_caps True, Stat_special True]"
    by (rule text_statistics_hello)
qed

theorem text_statistics_spec_witness:
  "text_statistics ''  Bodoh  punya orang? '' =
     [Stat_words 3, Stat_chars 22, Stat_caps True, Stat_special True]
   \<and> str_split ''  Bodoh  punya orang? '' = [''Bodoh'', ''punya'', ''orang?'']
   \<and> token_count ''  Bodoh  punya orang? '' = 3"
proof -
  have s: "str_split ''  Bodoh  punya orang? '' = [''Bodoh'', ''punya'', ''orang?'']"
    by (simp add: str_split_def isspace_def)
  note t = text_statistics_spec [of "''  Bodoh  punya orang? ''"]
  have 1: "text_statistics ''  Bodoh  punya orang? '' =
     [Stat_words 3, Stat_chars 22, Stat_caps True, Stat_special True]"
    unfolding t [THEN conjunct1] s by (simp add: isupper_def)
  have 2: "token_count ''  Bodoh  punya orang? '' = 3"
    using t [THEN conjunct2, THEN conjunct1] s by simp
  from 1 s 2 show ?thesis by simp
qed

subsection \<open>Runs with the artifacts loaded\<close>

lemma main_block_blank:
  "str_strip (text_input inp) = [] \<Longrightarrow>
   main_block env m v s inp =
     (if clear_btn inp then (s\<lparr>example := Some []\<rparr>, [], Rerun)
      else if analyze_btn inp then (s, [St_warning], Completed)
      else (s, [], Completed))"
  by (simp add: main_block_def)

lemma main_block_analysis:
  "\<not> clear_btn inp \<Longrightarrow> analyze_btn inp \<Longrightarrow> str_strip (text_input inp) \<noteq> [] \<Longrightarrow>
   main_block env m v s inp =
     (s, fst (analysis env m v (text_input inp)), snd (analysis env m v (text_input inp)))"
  by (simp add: main_block_def split: prod.splits)

lemma script_analysis_ok:
  assumes "cached s = Some (m, v)" "vocabulary v = Inr voc"
    and "\<not> clear_btn inp" "analyze_btn inp" "str_strip (text_input inp) \<noteq> []"
    and "analyze_text (text_input inp) m v = Inr r"
  shows "script env s inp =
     (s\<lparr>example := example_buttons inp (example s)\<rparr>,
      [St_success, Model_info (length voc),
       Call_detect_language (text_input inp), Call_analyze_text (text_input inp)]
        @ display_results
            (case detect_langs env (text_input inp) of
               Inr (l # ls) \<Rightarrow> str_upper (lang l) | _ \<Rightarrow> ''UNKNOWN'') r (text_input inp),
      Completed)"
  unfolding script_cached [OF assms(1,2)] main_block_analysis [OF assms(3,4,5)] analysis_eq
    assms(6)
  by simp

lemma script_analysis_fails:
  assumes "cached s = Some (m, v)" "vocabulary v = Inr voc"
    and "\<not> clear_btn inp" "analyze_btn inp" "str_strip (text_input inp) \<noteq> []"
    and "analyze_text (text_input inp) m v = Inl e"
  shows "script env s inp =
     (s\<lparr>example := example_buttons inp (example s)\<rparr>,
      [St_success, Model_info (length voc),
       Call_detect_language (text_input inp), Call_analyze_text (text_input inp)],
      Uncaught e)"
  unfolding script_cached [OF assms(1,2)] main_block_analysis [OF assms(3,4,5)] analysis_eq
    assms(6)
  by simp

lemma script_blank:
  assumes "cached s = Some (m, v)" "vocabulary v = Inr voc"
    and "\<not> clear_btn inp" "analyze_btn inp" "str_strip (text_input inp) = []"
  shows "script env s inp =
     (s\<lparr>example := example_buttons inp (example s)\<rparr>,
      [St_success, Model_info (length voc), St_warning], Completed)"
  unfolding script_cached [OF assms(1,2)] main_block_blank [OF assms(5)]
  using assms(3,4) by simp

lemma result_box_display:
  "Result_box b \<in> set (display_results lng r text) \<longleftrightarrow> b = main_result_box r"
  by (auto simp: display_results_def text_statistics_def Let_def)

text \<open>
  C10. A verdict that is not toxic is shown in the safe box whatever its severity,
  also MEDIUM or HIGH. A toxic verdict is shown in the toxic box if its severity is
  HIGH and in the warning box otherwise. This is the one result box of a run that
  analyses a text.
\<close>

theorem result_box_by_flag_then_severity:
  "(\<not> is_toxic r \<longrightarrow> main_result_box r = Safe_box)
   \<and> (is_toxic r \<longrightarrow>
        (main_result_box r = Toxic_box HIGH \<longleftrightarrow> severity r = HIGH)
        \<and> (main_result_box r = Warning_box (severity r) \<longleftrightarrow> severity r \<noteq> HIGH)
        \<and> main_result_box r \<noteq> Safe_box)
   \<and> (cached s = Some (m, v) \<and> vocabulary v = Inr voc \<and> \<not> clear_btn inp \<and> analyze_btn inp
        \<and> str_strip (text_input inp) \<noteq> [] \<and> analyze_text (text_input inp) m v = Inr r
      \<longrightarrow> (\<exists>s' evs. script env s inp = (s', evs, Completed)
             \<and> (\<forall>b. Result_box b \<in> set evs \<longleftrightarrow> b = main_result_box r)))"
proof (intro conjI impI)
  assume "\<not> is_toxic r"
  then show "main_result_box r = Safe_box" by (simp add: main_result_box_def)
next
  assume "is_toxic r"
  then show "main_result_box r = Toxic_box HIGH \<longleftrightarrow> severity r = HIGH"
    by (simp add: main_result_box_def)
next
  assume "is_toxic r"
  then show "main_result_box r = Warning_box (severity r) \<longleftrightarrow> severity r \<noteq> HIGH"
    by (simp add: main_result_box_def)
next
  assume "is_toxic r"
  then show "main_result_box r \<noteq> Safe_box" by (simp add: main_result_box_def)
next
  assume h: "cached s = Some (m, v) \<and> vocabulary v = Inr voc \<and> \<not> clear_btn inp
      \<and> analyze_btn inp \<and> str_strip (text_input inp) \<noteq> []
      \<and> analyze_text (text_input inp) m v = Inr r"
  from h have h1: "cached s = Some (m, v)" and h2: "vocabulary v = Inr voc"
    and h3: "\<not> clear_btn inp" and h4: "analyze_btn inp"
    and h5: "str_strip (text_input inp) \<noteq> []"
    and h6: "analyze_text (text_input inp) m v = Inr r"
    by blast+
  note script_analysis_ok [OF h1 h2 h3 h4 h5 h6, of env]
  moreover have "\<forall>b. Result_box b \<in> set
      ([St_success, Model_info (length voc),
       Call_detect_language (text_input inp), Call_analyze_text (text_input inp)]
        @ display_results
            (case detect_langs env (text_input inp) of
               Inr (l # ls) \<Rightarrow> str_upper (lang l) | _ \<Rightarrow> ''UNKNOWN'') r (text_input inp))
      \<longleftrightarrow> b = main_result_box r"
    by (simp add: result_box_display)
  ultimately show "\<exists>s' evs. script env s inp = (s', evs, Completed)
             \<and> (\<forall>b. Result_box b \<in> set evs \<longleftrightarrow> b = main_result_box r)"
    by blast
qed

lemma strip_bodoh: "str_strip ''Bodoh punya orang'' \<noteq> []"
  by (simp add: str_strip_Nil_iff isspace_def)

theorem result_box_by_flag_then_severity_witness:
  "main_result_box \<lparr> is_toxic = False, confidence = Fin 0.9, severity = HIGH \<rparr> = Safe_box
   \<and> main_result_box \<lparr> is_toxic = True, confidence = Fin 0.9, severity = HIGH \<rparr> = Toxic_box HIGH
   \<and> main_result_box \<lparr> is_toxic = True, confidence = Fin 0.6, severity = MEDIUM \<rparr>
        = Warning_box MEDIUM
   \<and> (\<exists>s' evs. script stub_env loaded_session (stub_inputs ''Bodoh punya orang'')
                  = (s', evs, Completed)
          \<and> (\<forall>b. Result_box b \<in> set evs \<longleftrightarrow> b = Safe_box))"
proof -
  note t1 = result_box_by_flag_then_severity
    [of "\<lparr> is_toxic = False, confidence = Fin 0.9, severity = HIGH \<rparr>" loaded_session
        "stub_model 0.9 0" stub_vectorizer "[(''bodoh'', 0), (''idiot'', 1), (''stupid'', 2)]"
        "stub_inputs ''Bodoh punya orang''" stub_env]
  have 1: "main_result_box \<lparr> is_toxic = False, confidence = Fin 0.9, severity = HIGH \<rparr> = Safe_box"
    using t1 [THEN conjunct1] by simp
  have 2: "main_result_box \<lparr> is_toxic = True, confidence = Fin 0.9, severity = HIGH \<rparr>
             = Toxic_box HIGH"
    using result_box_by_flag_then_severity
      [of "\<lparr> is_toxic = True, confidence = Fin 0.9, severity = HIGH \<rparr>",
       THEN conjunct2, THEN conjunct1]
    by simp
  have 3: "main_result_box \<lparr> is_toxic = True, confidence = Fin 0.6, severity = MEDIUM \<rparr>
             = Warning_box MEDIUM"
    using result_box_by_flag_then_severity
      [of "\<lparr> is_toxic = True, confidence = Fin 0.6, severity = MEDIUM \<rparr>",
       THEN conjunct2, THEN conjunct1]
    by simp
  have h: "cached loaded_session = Some (stub_model 0.9 0, stub_vectorizer)
      \<and> vocabulary stub_vectorizer = Inr [(''bodoh'', 0), (''idiot'', 1), (''stupid'', 2)]
      \<and> \<not> clear_btn (stub_inputs ''Bodoh punya orang'')
      \<and> analyze_btn (stub_inputs ''Bodoh punya orang'')
      \<and> str_strip (text_input (stub_inputs ''Bodoh punya orang'')) \<noteq> []
      \<and> analyze_text (text_input (stub_inputs ''Bodoh punya orang''))
            (stub_model 0.9 0) stub_vectorizer
          = Inr \<lparr> is_toxic = False, confidence = Fin 0.9, severity = HIGH \<rparr>"
  proof (intro conjI)
    show "cached loaded_session = Some (stub_model 0.9 0, stub_vectorizer)"
      by (simp add: loaded_session_def)
    show "vocabulary stub_vectorizer = Inr [(''bodoh'', 0), (''idiot'', 1), (''stupid'', 2)]"
      by (simp add: stub_vectorizer_def)
    show "\<not> clear_btn (stub_inputs ''Bodoh punya orang'')"
      by (simp add: stub_inputs_def)
    show "analyze_btn (stub_inputs ''Bodoh punya orang'')"
      by (simp add: stub_inputs_def)
    show "str_strip (text_input (stub_inputs ''Bodoh punya orang'')) \<noteq> []"
      using strip_bodoh by (simp add: stub_inputs_def)
    show "analyze_text (text_input (stub_inputs ''Bodoh punya orang''))
            (stub_model 0.9 0) stub_vectorizer
          = Inr \<lparr> is_toxic = False, confidence = Fin 0.9, severity = HIGH \<rparr>"
      using stub_verdicts by (simp add: stub_inputs_def)
  qed
  have 4: "\<exists>s' evs. script stub_env loaded_session (stub_inputs ''Bodoh punya orang'')
                  = (s', evs, Completed)
          \<and> (\<forall>b. Result_box b \<in> set evs \<longleftrightarrow> b = Safe_box)"
    using t1 [THEN conjunct2, THEN conjunct2, THEN mp, OF h] 1 by simp
  from 1 2 3 4 show ?thesis by blast
qed

subsection \<open>The guard of the analysis\<close>

lemma script_blank_events:
  assumes "str_strip (text_input inp) = []"
  shows "\<exists>s' evs out. script env s inp = (s', evs, out)
           \<and> set evs \<subseteq> {St_success, St_warning} \<union> range Model_info \<union> range St_error"
proof (cases "load_model_cached (joblib_load env) (BASE_DIR env) (cached s)")
  case (Pair res c)
  show ?thesis
  proof (cases res)
    case (Inl e)
    then show ?thesis using Pair by (cases e) (simp_all add: script_def)
  next
    case (Inr pair)
    obtain m v where pair: "pair = (m, v)" by (cases pair)
    show ?thesis
    proof (cases "vocabulary v")
      case (Inl e)
      then show ?thesis using Pair Inr pair by (simp add: script_def)
    next
      case voc: (Inr voc)
      show ?thesis
        using Pair Inr pair voc
        by (simp add: script_def main_block_blank [OF assms])
    qed
  qed
qed

lemma script_loaded:
  assumes "load_model_cached (joblib_load env) (BASE_DIR env) (cached s) = (Inr (m, v), c)"
    and "vocabulary v = Inr voc"
  shows "script env s inp =
     (case main_block env m v
             (s\<lparr>cached := c, example := example_buttons inp (example s)\<rparr>) inp of
        (s', evs, out) \<Rightarrow> (s', [St_success, Model_info (length voc)] @ evs, out))"
  using assms by (simp add: script_def)

lemma stub_env_loads:
  "load_model_cached (joblib_load stub_env) (BASE_DIR stub_env) None =
     (Inr (stub_model 0.9 0, stub_vectorizer), Some (stub_model 0.9 0, stub_vectorizer))"
  by (simp add: load_model_cached_def load_model_def stub_env_def model_path_def
                vectorizer_path_def)

text \<open>
  C9. When the text of the input area is empty or all whitespace, a run calls neither
  \<open>detect_language\<close> nor \<open>analyze_text\<close>, whatever the buttons and the state; and
  with the artifacts there (loaded now or before) and the analyze button pressed (the
  clear button not), the run writes the warning and ends.
\<close>

theorem blank_text_is_not_analysed:
  assumes "\<forall>c\<in>set (text_input inp). isspace c"
  shows "(\<exists>s' evs out. script env s inp = (s', evs, out)
            \<and> (\<forall>t. Call_detect_language t \<notin> set evs \<and> Call_analyze_text t \<notin> set evs)
            \<and> (\<forall>b. Result_box b \<notin> set evs))
       \<and> (load_model_cached (joblib_load env) (BASE_DIR env) (cached s) = (Inr (m, v), c)
            \<and> vocabulary v = Inr voc \<and> analyze_btn inp \<and> \<not> clear_btn inp
            \<longrightarrow> script env s inp =
                  (s\<lparr>cached := c, example := example_buttons inp (example s)\<rparr>,
                   [St_success, Model_info (length voc), St_warning], Completed))"
proof (intro conjI impI)
  have blank: "str_strip (text_input inp) = []"
    using assms by (simp add: str_strip_Nil_iff)
  from script_blank_events [OF blank, of env s]
  obtain s' evs out where run: "script env s inp = (s', evs, out)"
    and evs: "set evs \<subseteq> {St_success, St_warning} \<union> range Model_info \<union> range St_error"
    by blast
  have "\<forall>t. Call_detect_language t \<notin> set evs \<and> Call_analyze_text t \<notin> set evs"
    using evs by auto
  moreover have "\<forall>b. Result_box b \<notin> set evs" using evs by auto
  ultimately show "\<exists>s' evs out. script env s inp = (s', evs, out)
            \<and> (\<forall>t. Call_detect_language t \<notin> set evs \<and> Call_analyze_text t \<notin> set evs)
            \<and> (\<forall>b. Result_box b \<notin> set evs)"
    using run by blast
next
  assume h: "load_model_cached (joblib_load env) (BASE_DIR env) (cached s) = (Inr (m, v), c)
               \<and> vocabulary v = Inr voc \<and> analyze_btn inp \<and> \<not> clear_btn inp"
  have blank: "str_strip (text_input inp) = []"
    using assms by (simp add: str_strip_Nil_iff)
  from h have h1: "load_model_cached (joblib_load env) (BASE_DIR env) (cached s)
                     = (Inr (m, v), c)"
    and h2: "vocabulary v = Inr voc" and h3: "\<not> clear_btn inp" and h4: "analyze_btn inp"
    by blast+
  show "script env s inp =
          (s\<lparr>cached := c, example := example_buttons inp (example s)\<rparr>,
           [St_success, Model_info (length voc), St_warning], Completed)"
    unfolding script_loaded [OF h1 h2] main_block_blank [OF blank]
    using h3 h4 by simp
qed

theorem blank_text_is_not_analysed_witness:
  "list_all isspace (text_input (stub_inputs [CHR '' '', CHR 0x09, CHR 0x0A, CHR '' '']))
   \<and> script stub_env fresh_session (stub_inputs [CHR '' '', CHR 0x09, CHR 0x0A, CHR '' ''])
       = (loaded_session, [St_success, Model_info 3, St_warning], Completed)"
proof -
  have a: "\<forall>c\<in>set (text_input (stub_inputs [CHR '' '', CHR 0x09, CHR 0x0A, CHR '' ''])).
             isspace c"
    by (simp add: stub_inputs_def isspace_def)
  have h: "load_model_cached (joblib_load stub_env) (BASE_DIR stub_env) (cached fresh_session)
             = (Inr (stub_model 0.9 0, stub_vectorizer),
                Some (stub_model 0.9 0, stub_vectorizer))
      \<and> vocabulary stub_vectorizer = Inr [(''bodoh'', 0), (''idiot'', 1), (''stupid'', 2)]
      \<and> analyze_btn (stub_inputs [CHR '' '', CHR 0x09, CHR 0x0A, CHR '' ''])
      \<and> \<not> clear_btn (stub_inputs [CHR '' '', CHR 0x09, CHR 0x0A, CHR '' ''])"
  proof (intro conjI)
    show "load_model_cached (joblib_load stub_env) (BASE_DIR stub_env) (cached fresh_session)
             = (Inr (stub_model 0.9 0, stub_vectorizer),
                Some (stub_model 0.9 0, stub_vectorizer))"
      using stub_env_loads by (simp add: fresh_session_def)
    show "vocabulary stub_vectorizer = Inr [(''bodoh'', 0), (''idiot'', 1), (''stupid'', 2)]"
      by (simp add: stub_vectorizer_def)
    show "analyze_btn (stub_inputs [CHR '' '', CHR 0x09, CHR 0x0A, CHR '' ''])"
      by (simp add: stub_inputs_def)
    show "\<not> clear_btn (stub_inputs [CHR '' '', CHR 0x09, CHR 0x0A, CHR '' ''])"
      by (simp add: stub_inputs_def)
  qed
  have e: "fresh_session\<lparr>cached := Some (stub_model 0.9 0, stub_vectorizer),
             example :=
               example_buttons (stub_inputs [CHR '' '', CHR 0x09, CHR 0x0A, CHR '' ''])
                 (example fresh_session)\<rparr> = loaded_session"
    by (simp add: loaded_session_def fresh_session_def stub_inputs_def example_buttons_def)
  have a': "list_all isspace (text_input (stub_inputs [CHR '' '', CHR 0x09, CHR 0x0A, CHR '' '']))"
    using a by (simp only: list_all_iff)
  from blank_text_is_not_analysed [OF a, THEN conjunct2, THEN mp, OF h] a' e
  show ?thesis by simp
qed

subsection \<open>Failing loads\<close>

lemma load_model_fails:
  assumes "jl (model_path base) = Inl e \<or> jl (vectorizer_path base) = Inl e"
  shows "\<exists>e'. load_model jl base = Inl e'"
  using assms by (auto simp: load_model_def split: sum.splits)

lemma stub_env_no_vectorizer_load:
  "joblib_load stub_env_no_vectorizer (vectorizer_path (BASE_DIR stub_env_no_vectorizer))
     = Inl (Exception ''FileNotFoundError'')"
  by (simp add: stub_env_no_vectorizer_def vectorizer_path_def)

text \<open>
  C4. If loading the classifier file or the vectorizer file raises, \<open>load_model\<close>
  raises and returns no pair (it returns a pair only when both loads succeed). A run
  that has to load then ends at once, stopped after the error message or with the
  exception uncaught: it stores nothing in the cache and calls neither
  \<open>detect_language\<close> nor \<open>analyze_text\<close>, whatever the inputs.
\<close>

theorem load_failure_halts:
  assumes "joblib_load env (model_path (BASE_DIR env)) = Inl e
           \<or> joblib_load env (vectorizer_path (BASE_DIR env)) = Inl e"
  shows "(\<exists>e'. load_model (joblib_load env) (BASE_DIR env) = Inl e')
       \<and> (\<forall>m v. load_model (joblib_load env) (BASE_DIR env) \<noteq> Inr (m, v))
       \<and> (cached s = None \<longrightarrow>
            (\<exists>e'. load_model (joblib_load env) (BASE_DIR env) = Inl e'
               \<and> script env s inp =
                   (case e' of
                      Exception msg \<Rightarrow> (s, [St_error e'], Stopped)
                    | BaseException msg \<Rightarrow> (s, [], Uncaught e'))))"
proof (intro conjI impI)
  from assms obtain e' where e': "load_model (joblib_load env) (BASE_DIR env) = Inl e'"
    using load_model_fails by blast
  then show "\<exists>e'. load_model (joblib_load env) (BASE_DIR env) = Inl e'" by blast
  from e' show "\<forall>m v. load_model (joblib_load env) (BASE_DIR env) \<noteq> Inr (m, v)" by simp
  assume none: "cached s = None"
  have "script env s inp =
     (case e' of Exception msg \<Rightarrow> (s, [St_error e'], Stopped)
               | BaseException msg \<Rightarrow> (s, [], Uncaught e'))"
    using none e' by (rule script_load_fails)
  with e' show "\<exists>e'. load_model (joblib_load env) (BASE_DIR env) = Inl e'
               \<and> script env s inp =
                   (case e' of
                      Exception msg \<Rightarrow> (s, [St_error e'], Stopped)
                    | BaseException msg \<Rightarrow> (s, [], Uncaught e'))"
    by blast
qed

theorem load_failure_halts_witness:
  "joblib_load stub_env_no_vectorizer (vectorizer_path (BASE_DIR stub_env_no_vectorizer))
     = Inl (Exception ''FileNotFoundError'')
   \<and> load_model (joblib_load stub_env_no_vectorizer) (BASE_DIR stub_env_no_vectorizer)
     = Inl (Exception ''FileNotFoundError'')
   \<and> script stub_env_no_vectorizer fresh_session (stub_inputs ''Bodoh punya orang'')
     = (fresh_session, [St_error (Exception ''FileNotFoundError'')], Stopped)"
proof -
  have l: "load_model (joblib_load stub_env_no_vectorizer) (BASE_DIR stub_env_no_vectorizer)
     = Inl (Exception ''FileNotFoundError'')"
    by (simp add: load_model_def stub_env_no_vectorizer_def model_path_def
                  vectorizer_path_def)
  have c: "cached fresh_session = None" by (simp add: fresh_session_def)
  from load_failure_halts
         [OF disjI2, OF stub_env_no_vectorizer_load, THEN conjunct2, THEN conjunct2, THEN mp,
          OF c, of "stub_inputs ''Bodoh punya orang''"]
  have "script stub_env_no_vectorizer fresh_session (stub_inputs ''Bodoh punya orang'')
     = (fresh_session, [St_error (Exception ''FileNotFoundError'')], Stopped)"
    unfolding l by auto
  with stub_env_no_vectorizer_load l show ?thesis by simp
qed

subsection \<open>The language guess and the verdict\<close>

lemma hide_language_display:
  "filter (\<lambda>ev. \<not> shows_language ev) (display_results lng r text) =
   filter (\<lambda>ev. \<not> shows_language ev) (display_results lng' r text)"
  by (simp add: display_results_def)

lemma analysis_other_detector:
  "snd (analysis (env\<lparr>detect_langs := dl\<rparr>) m v t) = snd (analysis env m v t)
   \<and> filter (\<lambda>ev. \<not> shows_language ev) (fst (analysis (env\<lparr>detect_langs := dl\<rparr>) m v t))
       = filter (\<lambda>ev. \<not> shows_language ev) (fst (analysis env m v t))"
proof (cases "analyze_text t m v")
  case (Inl e)
  then show ?thesis by (simp add: analysis_eq)
next
  case (Inr r)
  have "filter (\<lambda>ev. \<not> shows_language ev)
          (display_results
             (case dl t of Inr (l # ls) \<Rightarrow> str_upper (lang l) | _ \<Rightarrow> ''UNKNOWN'') r t)
      = filter (\<lambda>ev. \<not> shows_language ev)
          (display_results
             (case detect_langs env t of
                Inr (l # ls) \<Rightarrow> str_upper (lang l) | _ \<Rightarrow> ''UNKNOWN'') r t)"
    by (rule hide_language_display)
  then show ?thesis using Inr by (simp add: analysis_eq)
qed

lemma main_block_other_detector:
  "hide_language (main_block (env\<lparr>detect_langs := dl\<rparr>) m v s inp)
     = hide_language (main_block env m v s inp)"
proof (cases "\<not> clear_btn inp \<and> analyze_btn inp \<and> str_strip (text_input inp) \<noteq> []")
  case True
  then have a: "\<not> clear_btn inp" and b: "analyze_btn inp"
    and c: "str_strip (text_input inp) \<noteq> []"
    by simp_all
  show ?thesis
    unfolding main_block_analysis [OF a b c] hide_language_def
    using analysis_other_detector [where env = env and dl = dl and m = m and v = v
                                     and t = "text_input inp"]
    by (simp add: case_prod_beta)
next
  case False
  then show ?thesis by (auto simp: main_block_def)
qed

lemma hide_language_prefix:
  "hide_language (case run of (s', evs, out) \<Rightarrow> (s', [St_success, Model_info n] @ evs, out))
     = (case hide_language run of (s', evs, out) \<Rightarrow> (s', [St_success, Model_info n] @ evs, out))"
  by (cases run) (simp add: hide_language_def)

lemma script_other_detector:
  "hide_language (script (env\<lparr>detect_langs := dl\<rparr>) s inp) = hide_language (script env s inp)"
proof (cases "load_model_cached (joblib_load env) (BASE_DIR env) (cached s)")
  case (Pair res c)
  show ?thesis
  proof (cases res)
    case (Inl e)
    then show ?thesis using Pair by (cases e) (simp_all add: script_def)
  next
    case (Inr pair)
    obtain m v where pair: "pair = (m, v)" by (cases pair)
    show ?thesis
    proof (cases "vocabulary v")
      case (Inl e)
      then show ?thesis using Pair Inr pair by (simp add: script_def)
    next
      case voc: (Inr voc)
      have l: "load_model_cached (joblib_load env) (BASE_DIR env) (cached s)
                 = (Inr (m, v), c)"
        using Pair Inr pair by simp
      have l': "load_model_cached (joblib_load (env\<lparr>detect_langs := dl\<rparr>))
                  (BASE_DIR (env\<lparr>detect_langs := dl\<rparr>)) (cached s) = (Inr (m, v), c)"
        using l by simp
      show ?thesis
        unfolding script_loaded [OF l voc] script_loaded [OF l' voc] hide_language_prefix
          main_block_other_detector
        by (rule refl)
    qed
  qed
qed

text \<open>
  C5. The language guess does not influence the verdict. A run with any other
  language detector ends in the same state and the same way and writes the same
  page, the language metric apart; and what the analysis shows is the result of
  \<open>analyze_text\<close> on the text and the artifacts, which does not take the guess.
\<close>

theorem verdict_independent_of_language:
  "hide_language (script (env\<lparr>detect_langs := dl\<rparr>) s inp) = hide_language (script env s inp)
   \<and> (\<exists>lng. analysis env m v text =
         (case analyze_text text m v of
            Inl e \<Rightarrow> ([Call_detect_language text, Call_analyze_text text], Uncaught e)
          | Inr r \<Rightarrow>
              ([Call_detect_language text, Call_analyze_text text]
                 @ display_results lng r text, Completed)))"
proof
  show "hide_language (script (env\<lparr>detect_langs := dl\<rparr>) s inp) = hide_language (script env s inp)"
    by (rule script_other_detector)
  show "\<exists>lng. analysis env m v text =
         (case analyze_text text m v of
            Inl e \<Rightarrow> ([Call_detect_language text, Call_analyze_text text], Uncaught e)
          | Inr r \<Rightarrow>
              ([Call_detect_language text, Call_analyze_text text]
                 @ display_results lng r text, Completed))"
    using analysis_eq [of env m v "text"] by blast
qed

lemma stub_run:
  "script stub_env loaded_session (stub_inputs ''Bodoh punya orang'') =
     (loaded_session,
      [St_success, Model_info 3,
       Call_detect_language ''Bodoh punya orang'', Call_analyze_text ''Bodoh punya orang'',
       Result_box Safe_box, Metric_language ''MS'', Metric_score (Fin 0.9), Metric_severity HIGH,
       St_progress (Fin 0.9), Stat_words 3, Stat_chars 17, Stat_caps True, Stat_special False],
      Completed)"
proof -
  have h1: "cached loaded_session = Some (stub_model 0.9 0, stub_vectorizer)"
    by (simp add: loaded_session_def)
  have h2: "vocabulary stub_vectorizer = Inr [(''bodoh'', 0), (''idiot'', 1), (''stupid'', 2)]"
    by (simp add: stub_vectorizer_def)
  have h3: "\<not> clear_btn (stub_inputs ''Bodoh punya orang'')"
    by (simp add: stub_inputs_def)
  have h4: "analyze_btn (stub_inputs ''Bodoh punya orang'')"
    by (simp add: stub_inputs_def)
  have h5: "str_strip (text_input (stub_inputs ''Bodoh punya orang'')) \<noteq> []"
    using strip_bodoh by (simp add: stub_inputs_def)
  have h6: "analyze_text (text_input (stub_inputs ''Bodoh punya orang''))
              (stub_model 0.9 0) stub_vectorizer
            = Inr \<lparr> is_toxic = False, confidence = Fin 0.9, severity = HIGH \<rparr>"
    using stub_verdicts by (simp add: stub_inputs_def)
  have t: "text_input (stub_inputs ''Bodoh punya orang'') = ''Bodoh punya orang''"
    by (simp add: stub_inputs_def)
  have e: "loaded_session\<lparr>example :=
             example_buttons (stub_inputs ''Bodoh punya orang'') (example loaded_session)\<rparr>
           = loaded_session"
    by (simp add: loaded_session_def stub_inputs_def example_buttons_def)
  have d: "detect_langs stub_env ''Bodoh punya orang'' =
             Inr [\<lparr> lang = ''ms'', prob = 0.7 \<rparr>, \<lparr> lang = ''en'', prob = 0.3 \<rparr>]"
    by (simp add: stub_env_def stub_detect)
  have st: "text_statistics ''Bodoh punya orang'' =
              [Stat_words 3, Stat_chars 17, Stat_caps True, Stat_special False]"
    by (simp add: text_statistics_def str_split_def isspace_def isupper_def
                  re_search_class_def)
  show ?thesis
    unfolding script_analysis_ok [OF h1 h2 h3 h4 h5 h6] t e d
    by (simp add: display_results_def st main_result_box_def str_upper_ms)
qed

theorem verdict_independent_of_language_witness:
  "hide_language
     (script (stub_env\<lparr>detect_langs := (\<lambda>_. Inl (Exception ''LangDetectException''))\<rparr>)
        loaded_session (stub_inputs ''Bodoh punya orang'')) =
     (loaded_session,
      [St_success, Model_info 3,
       Call_detect_language ''Bodoh punya orang'', Call_analyze_text ''Bodoh punya orang'',
       Result_box Safe_box, Metric_score (Fin 0.9), Metric_severity HIGH,
       St_progress (Fin 0.9), Stat_words 3, Stat_chars 17, Stat_caps True, Stat_special False],
      Completed)"
  unfolding verdict_independent_of_language
              [where env = stub_env and dl = "\<lambda>_. Inl (Exception ''LangDetectException'')"
                 and s = loaded_session and inp = "stub_inputs ''Bodoh punya orang''",
               THEN conjunct1]
            stub_run
  by (simp add: hide_language_def)

subsection \<open>Failing requests\<close>

lemma script_keeps_cache:
  assumes "cached s = Some (m, v)" "script env s inp = (s', evs, out)"
  shows "cached s' = Some (m, v)"
proof (cases "vocabulary v")
  case (Inl e)
  then show ?thesis using assms by (auto simp: script_def load_model_cached_def)
next
  case (Inr voc)
  have "fst (main_block env m v (s\<lparr>example := example_buttons inp (example s)\<rparr>) inp)
          = s\<lparr>example := example_buttons inp (example s)\<rparr>
        \<or> fst (main_block env m v (s\<lparr>example := example_buttons inp (example s)\<rparr>) inp)
          = s\<lparr>example := Some []\<rparr>"
    by (simp add: main_block_def split: prod.splits)
  moreover have "s' = fst (main_block env m v
                              (s\<lparr>example := example_buttons inp (example s)\<rparr>) inp)"
    using assms(2) unfolding script_cached [OF assms(1) Inr]
    by (simp add: case_prod_beta)
  ultimately show ?thesis using assms(1) by auto
qed

text \<open>
  C6. An exception raised by \<open>transform\<close>, by \<open>predict_proba\<close> or by \<open>predict\<close> is
  what \<open>analyze_text\<close> ends with: nothing catches it. In a run of the script it ends
  the run uncaught, with no result written, and the cached artifacts are the same
  after the run; a later run on a text they can score completes and shows its
  verdict.
\<close>

theorem scoring_error_propagates:
  "(transform v [t] = Inl e \<longrightarrow> analyze_text t m v = Inl e)
   \<and> (\<forall>X. transform v [t] = Inr X \<and> predict_proba m X = Inl e \<longrightarrow> analyze_text t m v = Inl e)
   \<and> (\<forall>X P. transform v [t] = Inr X \<and> predict_proba m X = Inr P \<and> 0 < length P
          \<and> 1 < length (P ! 0) \<and> predict m X = Inl e \<longrightarrow> analyze_text t m v = Inl e)
   \<and> (cached s = Some (m, v) \<and> vocabulary v = Inr voc \<and> \<not> clear_btn inp \<and> analyze_btn inp
        \<and> str_strip (text_input inp) \<noteq> [] \<and> analyze_text (text_input inp) m v = Inl e
      \<longrightarrow> (\<exists>s'. script env s inp =
                   (s', [St_success, Model_info (length voc),
                         Call_detect_language (text_input inp),
                         Call_analyze_text (text_input inp)], Uncaught e)
             \<and> cached s' = Some (m, v)
             \<and> (\<forall>inp' r. \<not> clear_btn inp' \<and> analyze_btn inp'
                    \<and> str_strip (text_input inp') \<noteq> []
                    \<and> analyze_text (text_input inp') m v = Inr r
                  \<longrightarrow> (\<exists>s'' evs. script env s' inp' = (s'', evs, Completed)
                         \<and> Result_box (main_result_box r) \<in> set evs
                         \<and> cached s'' = Some (m, v)))))"
proof (intro conjI allI impI)
  assume "transform v [t] = Inl e"
  then show "analyze_text t m v = Inl e" by (simp add: analyze_text_def)
next
  fix X assume "transform v [t] = Inr X \<and> predict_proba m X = Inl e"
  then show "analyze_text t m v = Inl e" by (simp add: analyze_text_def)
next
  fix X P
  assume "transform v [t] = Inr X \<and> predict_proba m X = Inr P \<and> 0 < length P
          \<and> 1 < length (P ! 0) \<and> predict m X = Inl e"
  then show "analyze_text t m v = Inl e" by (simp add: analyze_text_def getitem_def)
next
  assume h: "cached s = Some (m, v) \<and> vocabulary v = Inr voc \<and> \<not> clear_btn inp
      \<and> analyze_btn inp \<and> str_strip (text_input inp) \<noteq> []
      \<and> analyze_text (text_input inp) m v = Inl e"
  from h have h1: "cached s = Some (m, v)" and h2: "vocabulary v = Inr voc"
    and h3: "\<not> clear_btn inp" and h4: "analyze_btn inp"
    and h5: "str_strip (text_input inp) \<noteq> []"
    and h6: "analyze_text (text_input inp) m v = Inl e"
    by blast+
  let ?s' = "s\<lparr>example := example_buttons inp (example s)\<rparr>"
  have run: "script env s inp =
     (?s', [St_success, Model_info (length voc),
            Call_detect_language (text_input inp), Call_analyze_text (text_input inp)],
      Uncaught e)"
    using h1 h2 h3 h4 h5 h6 by (rule script_analysis_fails)
  have c: "cached ?s' = Some (m, v)" using h1 by simp
  have later: "\<exists>s'' evs. script env ?s' inp' = (s'', evs, Completed)
                 \<and> Result_box (main_result_box r) \<in> set evs \<and> cached s'' = Some (m, v)"
    if g: "\<not> clear_btn inp' \<and> analyze_btn inp' \<and> str_strip (text_input inp') \<noteq> []
           \<and> analyze_text (text_input inp') m v = Inr r"
    for inp' r
  proof -
    from g have g3: "\<not> clear_btn inp'" and g4: "analyze_btn inp'"
      and g5: "str_strip (text_input inp') \<noteq> []"
      and g6: "analyze_text (text_input inp') m v = Inr r"
      by blast+
    note ok = script_analysis_ok [OF c h2 g3 g4 g5 g6, of env]
    have "Result_box (main_result_box r) \<in> set
            ([St_success, Model_info (length voc),
              Call_detect_language (text_input inp'), Call_analyze_text (text_input inp')]
             @ display_results
                 (case detect_langs env (text_input inp') of
                    Inr (l # ls) \<Rightarrow> str_upper (lang l) | _ \<Rightarrow> ''UNKNOWN'') r
                 (text_input inp'))"
      by (simp add: result_box_display)
    moreover have "cached (?s'\<lparr>example := example_buttons inp' (example ?s')\<rparr>) = Some (m, v)"
      using h1 by simp
    ultimately show ?thesis using ok by blast
  qed
  from run c later
  show "\<exists>s'. script env s inp =
                   (s', [St_success, Model_info (length voc),
                         Call_detect_language (text_input inp),
                         Call_analyze_text (text_input inp)], Uncaught e)
             \<and> cached s' = Some (m, v)
             \<and> (\<forall>inp' r. \<not> clear_btn inp' \<and> analyze_btn inp'
                    \<and> str_strip (text_input inp') \<noteq> []
                    \<and> analyze_text (text_input inp') m v = Inr r
                  \<longrightarrow> (\<exists>s'' evs. script env s' inp' = (s'', evs, Completed)
                         \<and> Result_box (main_result_box r) \<in> set evs
                         \<and> cached s'' = Some (m, v)))"
    by blast
qed

lemma brittle_facts:
  "transform (brittle_vectorizer ''ham'') [''ham''] = Inl (Exception ''ValueError'')"
  "transform (brittle_vectorizer ''ham'') [''spam''] = Inr [''spam'']"
  "transform (brittle_vectorizer ''ham'') [''eggs''] = Inr [''eggs'']"
  "predict_proba (brittle_model ''spam'' ''eggs'') [''spam''] = Inl (Exception ''ValueError'')"
  "predict_proba (brittle_model ''spam'' ''eggs'') [''eggs'']
     = Inr [[float64 0.3, float64 0.7]]"
  "predict (brittle_model ''spam'' ''eggs'') [''eggs''] = Inl (Exception ''TypeError'')"
  "vocabulary (brittle_vectorizer ''ham'') = Inr [(''bodoh'', 0)]"
  by (simp_all add: brittle_vectorizer_def brittle_model_def)

lemma brittle_ok:
  "analyze_text ''Bodoh punya orang'' (brittle_model ''spam'' ''eggs'') (brittle_vectorizer ''ham'')
     = Inr \<lparr> is_toxic = True, confidence = Fin 0.7, severity = MEDIUM \<rparr>"
  by (simp add: analyze_text_def brittle_vectorizer_def brittle_model_def getitem_def
                float64_def np_gt_def py_float_def literal_0_8_def literal_0_5_def
                double_0_8_def)

theorem scoring_error_propagates_witness:
  "analyze_text ''ham'' (brittle_model ''spam'' ''eggs'') (brittle_vectorizer ''ham'')
     = Inl (Exception ''ValueError'')
   \<and> analyze_text ''spam'' (brittle_model ''spam'' ''eggs'') (brittle_vectorizer ''ham'')
     = Inl (Exception ''ValueError'')
   \<and> analyze_text ''eggs'' (brittle_model ''spam'' ''eggs'') (brittle_vectorizer ''ham'')
     = Inl (Exception ''TypeError'')
   \<and> (\<exists>s'. script stub_env brittle_session (stub_inputs ''ham'') =
              (s', [St_success, Model_info 1, Call_detect_language ''ham'',
                    Call_analyze_text ''ham''], Uncaught (Exception ''ValueError''))
          \<and> cached s' = cached brittle_session
          \<and> (\<exists>s'' evs. script stub_env s' (stub_inputs ''Bodoh punya orang'')
                           = (s'', evs, Completed)
                 \<and> Result_box (Warning_box MEDIUM) \<in> set evs
                 \<and> cached s'' = cached brittle_session))"
proof -
  note sep = scoring_error_propagates
    [where m = "brittle_model ''spam'' ''eggs''" and v = "brittle_vectorizer ''ham''"]
  have 1: "analyze_text ''ham'' (brittle_model ''spam'' ''eggs'') (brittle_vectorizer ''ham'')
     = Inl (Exception ''ValueError'')"
    using sep [where t = "''ham''" and e = "Exception ''ValueError''", THEN conjunct1]
      brittle_facts(1)
    by (rule mp)
  have 2: "analyze_text ''spam'' (brittle_model ''spam'' ''eggs'') (brittle_vectorizer ''ham'')
     = Inl (Exception ''ValueError'')"
    using sep [where t = "''spam''" and e = "Exception ''ValueError''",
               THEN conjunct2, THEN conjunct1, rule_format, of "[''spam'']"]
      brittle_facts(2,4)
    by simp
  have 3: "analyze_text ''eggs'' (brittle_model ''spam'' ''eggs'') (brittle_vectorizer ''ham'')
     = Inl (Exception ''TypeError'')"
    using sep [where t = "''eggs''" and e = "Exception ''TypeError''",
               THEN conjunct2, THEN conjunct2, THEN conjunct1, rule_format,
               of "[''eggs'']" "[[float64 0.3, float64 0.7]]"]
      brittle_facts(3,5,6)
    by simp
  have h: "cached brittle_session
             = Some (brittle_model ''spam'' ''eggs'', brittle_vectorizer ''ham'')
      \<and> vocabulary (brittle_vectorizer ''ham'') = Inr [(''bodoh'', 0)]
      \<and> \<not> clear_btn (stub_inputs ''ham'') \<and> analyze_btn (stub_inputs ''ham'')
      \<and> str_strip (text_input (stub_inputs ''ham'')) \<noteq> []
      \<and> analyze_text (text_input (stub_inputs ''ham'')) (brittle_model ''spam'' ''eggs'')
            (brittle_vectorizer ''ham'') = Inl (Exception ''ValueError'')"
  proof (intro conjI)
    show "cached brittle_session
             = Some (brittle_model ''spam'' ''eggs'', brittle_vectorizer ''ham'')"
      by (simp add: brittle_session_def)
    show "vocabulary (brittle_vectorizer ''ham'') = Inr [(''bodoh'', 0)]"
      by (rule brittle_facts(7))
    show "\<not> clear_btn (stub_inputs ''ham'')" by (simp add: stub_inputs_def)
    show "analyze_btn (stub_inputs ''ham'')" by (simp add: stub_inputs_def)
    show "str_strip (text_input (stub_inputs ''ham'')) \<noteq> []"
      by (simp add: stub_inputs_def str_strip_Nil_iff isspace_def)
    show "analyze_text (text_input (stub_inputs ''ham'')) (brittle_model ''spam'' ''eggs'')
            (brittle_vectorizer ''ham'') = Inl (Exception ''ValueError'')"
      using 1 by (simp add: stub_inputs_def)
  qed
  have g: "\<not> clear_btn (stub_inputs ''Bodoh punya orang'')
      \<and> analyze_btn (stub_inputs ''Bodoh punya orang'')
      \<and> str_strip (text_input (stub_inputs ''Bodoh punya orang'')) \<noteq> []
      \<and> analyze_text (text_input (stub_inputs ''Bodoh punya orang''))
            (brittle_model ''spam'' ''eggs'') (brittle_vectorizer ''ham'')
          = Inr \<lparr> is_toxic = True, confidence = Fin 0.7, severity = MEDIUM \<rparr>"
    using strip_bodoh brittle_ok by (simp add: stub_inputs_def)
  from sep [where s = brittle_session and inp = "stub_inputs ''ham''" and env = stub_env
              and e = "Exception ''ValueError''" and voc = "[(''bodoh'', 0)]",
            THEN conjunct2, THEN conjunct2, THEN conjunct2, THEN mp, OF h]
  obtain s' where run: "script stub_env brittle_session (stub_inputs ''ham'') =
        (s', [St_success, Model_info (length [(''bodoh'', 0::nat)]),
              Call_detect_language (text_input (stub_inputs ''ham'')),
              Call_analyze_text (text_input (stub_inputs ''ham''))],
         Uncaught (Exception ''ValueError''))"
    and c: "cached s' = Some (brittle_model ''spam'' ''eggs'', brittle_vectorizer ''ham'')"
    and later: "\<forall>inp' r. \<not> clear_btn inp' \<and> analyze_btn inp'
                    \<and> str_strip (text_input inp') \<noteq> []
                    \<and> analyze_text (text_input inp') (brittle_model ''spam'' ''eggs'')
                          (brittle_vectorizer ''ham'') = Inr r
                  \<longrightarrow> (\<exists>s'' evs. script stub_env s' inp' = (s'', evs, Completed)
                         \<and> Result_box (main_result_box r) \<in> set evs
                         \<and> cached s'' =
                             Some (brittle_model ''spam'' ''eggs'', brittle_vectorizer ''ham''))"
    by blast
  from later [rule_format, OF g]
  obtain s'' evs where run2:
      "script stub_env s' (stub_inputs ''Bodoh punya orang'') = (s'', evs, Completed)"
    and box: "Result_box
                (main_result_box \<lparr> is_toxic = True, confidence = Fin 0.7, severity = MEDIUM \<rparr>)
              \<in> set evs"
    and c2: "cached s'' = Some (brittle_model ''spam'' ''eggs'', brittle_vectorizer ''ham'')"
    by blast
  have b: "main_result_box \<lparr> is_toxic = True, confidence = Fin 0.7, severity = MEDIUM \<rparr>
             = Warning_box MEDIUM"
    by (simp add: main_result_box_def)
  have cs: "cached brittle_session
              = Some (brittle_model ''spam'' ''eggs'', brittle_vectorizer ''ham'')"
    by (simp add: brittle_session_def)
  have run': "script stub_env brittle_session (stub_inputs ''ham'') =
        (s', [St_success, Model_info 1, Call_detect_language ''ham'',
              Call_analyze_text ''ham''], Uncaught (Exception ''ValueError''))"
    using run by (simp add: stub_inputs_def)
  have 4: "\<exists>s'. script stub_env brittle_session (stub_inputs ''ham'') =
              (s', [St_success, Model_info 1, Call_detect_language ''ham'',
                    Call_analyze_text ''ham''], Uncaught (Exception ''ValueError''))
          \<and> cached s' = cached brittle_session
          \<and> (\<exists>s'' evs. script stub_env s' (stub_inputs ''Bodoh punya orang'')
                           = (s'', evs, Completed)
                 \<and> Result_box (Warning_box MEDIUM) \<in> set evs
                 \<and> cached s'' = cached brittle_session)"
    using run' c run2 box c2 unfolding b cs by blast
  from 1 2 3 4 show ?thesis by blast
qed

end
